theory Spec2Isabelle
  imports Complex_Main "HOL-Library.Sublist"
begin

section \<open>JavaScript values\<close>

text \<open>
  The shapefile service is TypeScript over untyped (\<open>any\<close>) GeoJSON. Numbers are IEEE
  doubles: the finite ones are modelled by reals, and the three special values are kept
  apart because every comparison with \<open>NaN\<close> is false and \<open>NaN\<close> is falsy.
\<close>

datatype jsnum = Fin real | PosInfinity | NegInfinity | NaN

text \<open>The operator \<open><\<close> of JavaScript on numbers.\<close>

fun js_lt :: "jsnum \<Rightarrow> jsnum \<Rightarrow> bool" where
  "js_lt NaN _ = False"
| "js_lt _ NaN = False"
| "js_lt (Fin a) (Fin b) = (a < b)"
| "js_lt (Fin a) PosInfinity = True"
| "js_lt (Fin a) NegInfinity = False"
| "js_lt NegInfinity (Fin b) = True"
| "js_lt NegInfinity PosInfinity = True"
| "js_lt NegInfinity NegInfinity = False"
| "js_lt PosInfinity _ = False"

text \<open>\<open>a > b\<close> is \<open>b < a\<close>.\<close>

definition js_gt :: "jsnum \<Rightarrow> jsnum \<Rightarrow> bool" where
  "js_gt a b = js_lt b a"

datatype jsval = Undefined | Null | Boolean bool | Number jsnum | Str string

text \<open>Truthiness: \<open>undefined\<close>, \<open>null\<close>, \<open>false\<close>, \<open>0\<close>, \<open>NaN\<close> and \<open>""\<close> are falsy.\<close>

fun truthy :: "jsval \<Rightarrow> bool" where
  "truthy Undefined = False"
| "truthy Null = False"
| "truthy (Boolean b) = b"
| "truthy (Number (Fin r)) = (r \<noteq> 0)"
| "truthy (Number NaN) = False"
| "truthy (Number _) = True"
| "truthy (Str s) = (s \<noteq> [])"

text \<open>\<open>a || b\<close> on values that are already computed.\<close>

definition js_or :: "jsval \<Rightarrow> jsval \<Rightarrow> jsval" where
  "js_or a b = (if truthy a then a else b)"

text \<open>Exceptions: an \<open>Error\<close> with its message, or any other thrown value.\<close>

datatype exn = Error string | Thrown

section \<open>Strings\<close>

text \<open>
  \<open>toLowerCase\<close> on the ASCII letters; every other character is left as it is. File and
  archive entry names are compared with ASCII suffixes only.
\<close>

definition lower_char :: "char \<Rightarrow> char" where
  "lower_char c =
     (let n = (of_char c :: nat) in if 65 \<le> n \<and> n \<le> 90 then char_of (n + 32) else c)"

definition toLowerCase :: "string \<Rightarrow> string" where
  "toLowerCase s = map lower_char s"

text \<open>\<open>s.endsWith(t)\<close>.\<close>

definition endsWith :: "string \<Rightarrow> string \<Rightarrow> bool" where
  "endsWith s t = suffix t s"

text \<open>
  \<open>s.split(c)\<close> for a one-character separator: the pieces between the separators, always
  at least one piece (\<open>"".split('.')\<close> is \<open>[""]\<close>).
\<close>

fun split :: "char \<Rightarrow> string \<Rightarrow> string list" where
  "split c [] = [[]]"
| "split c (x # xs) =
     (if x = c then [] # split c xs
      else (case split c xs of
              [] \<Rightarrow> [[x]]
            | p # ps \<Rightarrow> (x # p) # ps))"

text \<open>\<open>f.replace('.', '')\<close>: a string pattern replaces its first occurrence only.\<close>

definition replace_dot :: "string \<Rightarrow> string" where
  "replace_dot f = remove1 (CHR ''.'') f"

section \<open>Pre-upload file check\<close>

text \<open>A browser \<open>File\<close>: the fields the service reads.\<close>

record File =
  fname :: string
  fsize :: nat

record validation =
  isValid :: bool
  errors :: "string list"

definition getSupportedFormats :: "string list" where
  "getSupportedFormats = [''.zip'', ''.shp'', ''.shx'', ''.dbf'', ''.prj'', ''.cpg'']"

definition maxSize :: nat where
  "maxSize = 50 * 1024 * 1024"

text \<open>
  The local \<open>extension\<close> of \<open>validateFile\<close>, as a function of \<open>file.name\<close>:
  \<open>name.toLowerCase().split('.').pop()\<close>. The split always has a last piece; for
  a name without a dot it is the whole name.
\<close>

definition extension :: "string \<Rightarrow> string" where
  "extension name = last (split (CHR ''.'') (toLowerCase name))"

text \<open>
  \<open>validateFile\<close>: the size check, then the extension check; both reasons can be
  reported. \<open>!extension\<close> holds for the empty string.
\<close>

definition validateFile :: "File \<Rightarrow> validation" where
  "validateFile file =
     (let errors1 = (if fsize file > maxSize then [''File size exceeds 50MB limit''] else []);
          supportedFormats = map replace_dot getSupportedFormats;
          errors2 = errors1 @
            (if extension (fname file) = [] \<or> extension (fname file) \<notin> set supportedFormats
             then [''Unsupported file format. Please upload a ZIP file containing shapefile components.'']
             else [])
      in \<lparr>isValid = (length errors2 = 0), errors = errors2\<rparr>)"

section \<open>GeoJSON\<close>

text \<open>
  Coordinates are nested arrays of numbers: a position is an array of numbers, a ring an
  array of positions, the coordinates of a polygon an array of rings. The service reads
  them as \<open>any\<close>, so every nesting is a value of the type.
\<close>

datatype coord = N jsnum | A "coord list"

record Geometry =
  gtype :: string
  coordinates :: coord

text \<open>An attribute dictionary, and the read \<open>properties.KEY\<close> (\<open>undefined\<close> for a missing key).\<close>

type_synonym props = "(string \<times> jsval) list"

definition read_prop :: "props \<Rightarrow> string \<Rightarrow> jsval" where
  "read_prop ps k = (case map_of ps k of None \<Rightarrow> Undefined | Some v \<Rightarrow> v)"

text \<open>
  A feature is an object with a geometry and an attribute dictionary; \<open>None\<close> stands
  for a \<open>null\<close> or missing field.
\<close>

record Feature =
  geometry :: "Geometry option"
  properties :: "props option"

text \<open>
  The geometry library (\<open>@turf/turf\<close>) is an external collaborator: the functions the
  service calls are parameters of the model. Each of them can throw.
  \<open>turf_kinks\<close> gives the \<open>features\<close> of the collection of intersection points, and
  \<open>turf_bbox\<close> the bounding box of the collection \<open>turf.featureCollection\<close> wraps
  around a list of features.
\<close>

record turf =
  turf_polygon :: "coord \<Rightarrow> exn + Feature"
  turf_booleanValid :: "Feature \<Rightarrow> exn + bool"
  turf_kinks :: "Feature \<Rightarrow> exn + Feature list"
  turf_area :: "Feature \<Rightarrow> exn + jsnum"
  turf_bbox :: "Feature list \<Rightarrow> exn + jsnum list"
  turf_bboxPolygon :: "jsnum list \<Rightarrow> exn + Feature"

section \<open>Geometry validation\<close>

text \<open>The \<open>catch\<close> of \<open>validateGeometry\<close>: the reasons pushed so far are kept.\<close>

definition caught :: "string list \<Rightarrow> validation" where
  "caught errs = \<lparr>isValid = False, errors = errs @ [''Invalid geometry format'']\<rparr>"

definition validateGeometry :: "turf \<Rightarrow> Geometry option \<Rightarrow> validation" where
  "validateGeometry T geom =
     (case geom of
        None \<Rightarrow> \<lparr>isValid = False, errors = [''Geometry must be a Polygon'']\<rparr>
      | Some g \<Rightarrow>
          if gtype g \<noteq> ''Polygon''
          then \<lparr>isValid = False, errors = [''Geometry must be a Polygon'']\<rparr>
          else
            (case turf_polygon T (coordinates g) of
               Inl e \<Rightarrow> caught []
             | Inr polygon \<Rightarrow>
                 (case turf_booleanValid T polygon of
                    Inl e \<Rightarrow> caught []
                  | Inr v \<Rightarrow>
                      let errors1 = (if \<not> v then [''Invalid polygon geometry''] else []) in
                      (case turf_kinks T polygon of
                         Inl e \<Rightarrow> caught errors1
                       | Inr kinks \<Rightarrow>
                           let errors2 = errors1 @
                                 (if length kinks > 0 then [''Polygon has self-intersections'']
                                  else []) in
                           (case turf_area T polygon of
                              Inl e \<Rightarrow> caught errors2
                            | Inr area \<Rightarrow>
                                let errors3 = errors2 @
                                      (if js_lt area (Fin 1) then [''Area too small''] else []);
                                    errors4 = errors3 @
                                      (if js_gt area (Fin 10000000) then [''Area too large'']
                                       else [])
                                in \<lparr>isValid = (length errors4 = 0), errors = errors4\<rparr>)))))"

section \<open>Clock and random source\<close>

text \<open>
  \<open>Date.now()\<close> and \<open>Math.random()\<close> are inputs of the run: the world gives the value
  of the k-th clock reading and the text \<open>Math.random().toString(36)\<close> of the k-th draw,
  and counts the readings and draws made so far.
\<close>

record world =
  date_now :: "nat \<Rightarrow> int"
  random36 :: "nat \<Rightarrow> string"
  clock_reads :: nat
  random_draws :: nat

text \<open>Decimal text of an integer, as a template literal prints it.\<close>

definition digit_char :: "nat \<Rightarrow> char" where
  "digit_char d = ''0123456789'' ! d"

fun digits :: "nat \<Rightarrow> string" where
  "digits n = (if n < 10 then [digit_char n] else digits (n div 10) @ [digit_char (n mod 10)])"

declare digits.simps [simp del]

definition show_int :: "int \<Rightarrow> string" where
  "show_int i = (if i < 0 then CHR ''-'' # digits (nat (- i)) else digits (nat i))"

text \<open>\<open>s.substr(start, len)\<close> for \<open>start\<close> within the non-negative range.\<close>

definition substr :: "nat \<Rightarrow> nat \<Rightarrow> string \<Rightarrow> string" where
  "substr start len s = take len (drop start s)"

text \<open>
  The fallback plot code
  \<open>`PLOT_${Date.now()}_${Math.random().toString(36).substr(2, 9)}`\<close>: one clock
  reading and one draw.
\<close>

definition synthesize :: "world \<Rightarrow> string \<times> world" where
  "synthesize w =
     (''PLOT_'' @ show_int (date_now w (clock_reads w)) @ ''_'' @
        substr 2 9 (random36 w (random_draws w)),
      w\<lparr>clock_reads := Suc (clock_reads w), random_draws := Suc (random_draws w)\<rparr>)"

section \<open>Conversion of features to plot records\<close>

text \<open>
  The text \<open>JSON.stringify(geometry)\<close> is represented by the value it serialises; no
  property below depends on its characters.
\<close>

datatype json_text = JSON_stringify "Geometry option"

record ParsedPlotData =
  plot_code :: jsval
  plot_geometry :: json_text
  area_sqm :: jsnum
  land_use :: jsval
  owner_name :: jsval
  price_usd :: jsval
  plot_notes :: jsval
  attributes :: props

text \<open>\<open>feature.properties || {}\<close>.\<close>

definition properties_of :: "Feature \<Rightarrow> props" where
  "properties_of feature = (case properties feature of None \<Rightarrow> [] | Some ps \<Rightarrow> ps)"

text \<open>
  The \<open>plot_code\<close> entry:
  \<open>properties.PLOT_CODE || properties.plot_code || properties.ID || `PLOT_...`\<close>.
  The template literal is evaluated, and the world advanced, only when the three reads
  are all falsy.
\<close>

definition plot_code_of :: "world \<Rightarrow> props \<Rightarrow> jsval \<times> world" where
  "plot_code_of w ps =
     (let named = js_or (js_or (read_prop ps ''PLOT_CODE'') (read_prop ps ''plot_code'')) (read_prop ps ''ID'')
      in if truthy named then (named, w)
         else (case synthesize w of (s, w') \<Rightarrow> (Str s, w')))"

text \<open>The object literal \<open>plotData\<close>, given the value of its \<open>plot_code\<close> entry.\<close>

definition plotData :: "Feature \<Rightarrow> jsnum \<Rightarrow> jsval \<Rightarrow> ParsedPlotData" where
  "plotData feature area code =
     (let ps = properties_of feature in
      \<lparr>plot_code = code,
       plot_geometry = JSON_stringify (geometry feature),
       area_sqm = area,
       land_use = js_or (js_or (js_or (read_prop ps ''LAND_USE'') (read_prop ps ''land_use''))
                    (read_prop ps ''USE'')) (read_prop ps ''TYPE''),
       owner_name = js_or (js_or (read_prop ps ''OWNER'') (read_prop ps ''owner'')) (read_prop ps ''OWNER_NAME''),
       price_usd = js_or (js_or (read_prop ps ''PRICE_USD'') (read_prop ps ''price'')) (read_prop ps ''VALUE''),
       plot_notes = js_or (js_or (read_prop ps ''NOTES'') (read_prop ps ''notes'')) (read_prop ps ''REMARKS''),
       attributes = ps\<rparr>)"

text \<open>
  One iteration of the loop of \<open>convertToPlotData\<close>: \<open>Some\<close> record when it is pushed,
  \<open>None\<close> when the feature is skipped, either because \<open>turf.area(feature)\<close> threw (the
  \<open>catch\<close>) or because the geometry is not valid. The area is computed first, then the
  record is built, then the geometry is validated.
\<close>

definition processFeature :: "turf \<Rightarrow> world \<Rightarrow> Feature \<Rightarrow> ParsedPlotData option \<times> world" where
  "processFeature T w feature =
     (case turf_area T feature of
        Inl e \<Rightarrow> (None, w)
      | Inr area \<Rightarrow>
          (case plot_code_of w (properties_of feature) of
             (code, w') \<Rightarrow>
               if \<not> isValid (validateGeometry T (geometry feature)) then (None, w')
               else (Some (plotData feature area code), w')))"

text \<open>
  The loop, with the array \<open>plotsData\<close> built so far. The lines written to the console
  for a skipped feature are not part of the result and are left out.
\<close>

fun convert_loop ::
  "turf \<Rightarrow> world \<Rightarrow> Feature list \<Rightarrow> ParsedPlotData list \<Rightarrow> ParsedPlotData list \<times> world" where
  "convert_loop T w [] plotsData = (plotsData, w)"
| "convert_loop T w (feature # rest) plotsData =
     (case processFeature T w feature of
        (None, w') \<Rightarrow> convert_loop T w' rest plotsData
      | (Some p, w') \<Rightarrow> convert_loop T w' rest (plotsData @ [p]))"

text \<open>The parsed archive; the two entries of \<open>metadata\<close> are fields of the record.\<close>

record ShapefileData =
  features :: "Feature list"
  projection :: "string option"
  bounds :: "Geometry option"
  fileCount :: nat
  hasProjection :: bool

definition convertToPlotData :: "turf \<Rightarrow> world \<Rightarrow> ShapefileData \<Rightarrow> ParsedPlotData list \<times> world" where
  "convertToPlotData T w shapefileData = convert_loop T w (features shapefileData) []"

section \<open>Reading the archive\<close>

text \<open>
  The collaborators of \<open>parseShapefileFromZip\<close>: \<open>JSZip.loadAsync(file)\<close> followed by
  \<open>Object.keys(zip.files)\<close> gives the entry names or throws; the stand-in decoder
  \<open>generateMockFeaturesFromFile\<close> draws ten random squares in floating point, and its
  outcome is taken as given.
\<close>

record decoder =
  loadAsync :: "File \<Rightarrow> exn + string list"
  generateMockFeaturesFromFile :: "File \<Rightarrow> exn + Feature list"

text \<open>\<open>Object.keys(files).find(name => name.toLowerCase().endsWith(ext))\<close>.\<close>

definition find_entry :: "string \<Rightarrow> string list \<Rightarrow> string option" where
  "find_entry ext names = find (\<lambda>name. endsWith (toLowerCase name) ext) names"

text \<open>\<open>!x\<close> for the result of \<open>find\<close>: \<open>undefined\<close> or the empty string.\<close>

definition js_not :: "string option \<Rightarrow> bool" where
  "js_not x = (x = None \<or> x = Some [])"

definition calculateBounds :: "turf \<Rightarrow> Feature list \<Rightarrow> exn + Geometry option" where
  "calculateBounds T fs =
     (if length fs = 0 then Inr None
      else (case turf_bbox T fs of
              Inl e \<Rightarrow> Inl e
            | Inr bbox \<Rightarrow>
                (case turf_bboxPolygon T bbox of
                   Inl e \<Rightarrow> Inl e
                 | Inr poly \<Rightarrow> Inr (geometry poly))))"

text \<open>\<open>error instanceof Error ? error.message : 'Unknown error'\<close>.\<close>

fun message_of :: "exn \<Rightarrow> string" where
  "message_of (Error m) = m"
| "message_of Thrown = ''Unknown error''"

text \<open>The outer \<open>catch\<close>: every failure is rethrown as an \<open>Error\<close> with a prefixed message.\<close>

definition parse_failed :: "exn \<Rightarrow> exn + ShapefileData" where
  "parse_failed e = Inl (Error (''Failed to parse shapefile: '' @ message_of e))"

definition parseShapefileFromZip :: "decoder \<Rightarrow> turf \<Rightarrow> File \<Rightarrow> exn + ShapefileData" where
  "parseShapefileFromZip D T file =
     (case loadAsync D file of
        Inl e \<Rightarrow> parse_failed e
      | Inr names \<Rightarrow>
          let shpFile = find_entry ''.shp'' names;
              dbfFile = find_entry ''.dbf'' names;
              prjFile = find_entry ''.prj'' names
          in if js_not shpFile \<or> js_not dbfFile
             then parse_failed (Error ''Shapefile must contain .shp and .dbf files'')
             else
               (case generateMockFeaturesFromFile D file of
                  Inl e \<Rightarrow> parse_failed e
                | Inr mockFeatures \<Rightarrow>
                    (case calculateBounds T mockFeatures of
                       Inl e \<Rightarrow> parse_failed e
                     | Inr b \<Rightarrow>
                         Inr \<lparr>features = mockFeatures,
                              projection = (if \<not> js_not prjFile then Some ''EPSG:4326'' else None),
                              bounds = b,
                              fileCount = length names,
                              hasProjection = (\<not> js_not prjFile)\<rparr>)))"

section \<open>Predicates of the specification\<close>

text \<open>
  A feature is accepted when \<open>turf.area(feature)\<close> returns and its geometry validates;
  a record is built from a feature when it is the object literal of that feature, with
  the feature's computed area and some plot code.
\<close>

definition accepted :: "turf \<Rightarrow> Feature \<Rightarrow> bool" where
  "accepted T f =
     (case turf_area T f of
        Inl e \<Rightarrow> False
      | Inr a \<Rightarrow> isValid (validateGeometry T (geometry f)))"

definition built_from :: "turf \<Rightarrow> Feature \<Rightarrow> ParsedPlotData \<Rightarrow> bool" where
  "built_from T f p =
     (case turf_area T f of
        Inl e \<Rightarrow> False
      | Inr a \<Rightarrow> p = plotData f a (plot_code p))"

text \<open>
  The contract of \<open>turf.area\<close> on features: the result is a function of the geometry,
  whatever the properties are.
\<close>

definition area_from_geometry :: "turf \<Rightarrow> bool" where
  "area_from_geometry T = (\<forall>f f'. geometry f = geometry f' \<longrightarrow> turf_area T f = turf_area T f')"

text \<open>Some entry name ends, in lower case, with the extension.\<close>

definition has_entry :: "string \<Rightarrow> string list \<Rightarrow> bool" where
  "has_entry ext names = list_ex (\<lambda>name. endsWith (toLowerCase name) ext) names"

section \<open>Concrete collaborators\<close>

text \<open>
  A small geometry library to run the model on concrete inputs. \<open>stub_polygon\<close> refuses,
  as the library does, a ring of fewer than four positions or one whose last position
  differs from its first, and builds a polygon feature from the coordinates otherwise.
  Validity, intersection points and area are fixed by the three arguments; the area of
  a feature without geometry throws.
\<close>

fun closed_ring :: "coord \<Rightarrow> bool" where
  "closed_ring (A ps) = (4 \<le> length ps \<and> last ps = hd ps)"
| "closed_ring (N x) = False"

definition stub_polygon :: "coord \<Rightarrow> exn + Feature" where
  "stub_polygon c =
     (case c of
        N x \<Rightarrow> Inl Thrown
      | A rings \<Rightarrow>
          if list_all closed_ring rings
          then Inr \<lparr>geometry = Some \<lparr>gtype = ''Polygon'', coordinates = c\<rparr>, properties = Some []\<rparr>
          else Inl (Error ''Each LinearRing of a Polygon must have 4 or more Positions.''))"

text \<open>A unit square, a ring of three equal positions, and an intersection point.\<close>

definition square :: coord where
  "square = A [A [A [N (Fin 0), N (Fin 0)], A [N (Fin 1), N (Fin 0)], A [N (Fin 1), N (Fin 1)],
                  A [N (Fin 0), N (Fin 1)], A [N (Fin 0), N (Fin 0)]]]"

definition short_ring :: coord where
  "short_ring = A [A [A [N (Fin 0), N (Fin 0)], A [N (Fin 0), N (Fin 0)], A [N (Fin 0), N (Fin 0)]]]"

definition point_feature :: Feature where
  "point_feature =
     \<lparr>geometry = Some \<lparr>gtype = ''Point'', coordinates = A [N (Fin 0), N (Fin 0)]\<rparr>,
      properties = Some []\<rparr>"

definition stub_turf :: "bool \<Rightarrow> Feature list \<Rightarrow> jsnum \<Rightarrow> turf" where
  "stub_turf v ks a =
     \<lparr>turf_polygon = stub_polygon,
      turf_booleanValid = (\<lambda>p. Inr v),
      turf_kinks = (\<lambda>p. Inr ks),
      turf_area = (\<lambda>f. case geometry f of None \<Rightarrow> Inl Thrown | Some g \<Rightarrow> Inr a),
      turf_bbox = (\<lambda>fs. Inr [Fin 0, Fin 0, Fin 1, Fin 1]),
      turf_bboxPolygon = (\<lambda>bb. stub_polygon square)\<rparr>"

text \<open>A feature over the unit square with the given attributes.\<close>

definition square_feature :: "props \<Rightarrow> Feature" where
  "square_feature ps =
     \<lparr>geometry = Some \<lparr>gtype = ''Polygon'', coordinates = square\<rparr>, properties = Some ps\<rparr>"

text \<open>
  A square of side 0.001 degree at the origin, about 12,400 square metres on the ground,
  and a feature over it with the given attributes.
\<close>

definition small_square :: coord where
  "small_square =
     A [A [A [N (Fin 0), N (Fin 0)], A [N (Fin (1 / 1000)), N (Fin 0)],
           A [N (Fin (1 / 1000)), N (Fin (1 / 1000))], A [N (Fin 0), N (Fin (1 / 1000))],
           A [N (Fin 0), N (Fin 0)]]]"

definition plot_feature :: "props \<Rightarrow> Feature" where
  "plot_feature ps =
     \<lparr>geometry = Some \<lparr>gtype = ''Polygon'', coordinates = small_square\<rparr>, properties = Some ps\<rparr>"

text \<open>A world whose clock always reads 1700000000000 and whose draws print as \<open>0.4fzyo82mvyr\<close>.\<close>

definition world0 :: world where
  "world0 = \<lparr>date_now = (\<lambda>k. 1700000000000), random36 = (\<lambda>k. ''0.4fzyo82mvyr''),
             clock_reads = 0, random_draws = 0\<rparr>"

text \<open>An archive reader that finds the given entry names and decodes the given features.\<close>

definition decoder_of :: "string list \<Rightarrow> Feature list \<Rightarrow> decoder" where
  "decoder_of names fs =
     \<lparr>loadAsync = (\<lambda>file. Inr names), generateMockFeaturesFromFile = (\<lambda>file. Inr fs)\<rparr>"

text \<open>
  Four features: a valid square, a feature without geometry (its area throws), a
  polygon with a ring of three positions (not valid), and a second valid square.
\<close>

definition mixed_batch :: ShapefileData where
  "mixed_batch =
     \<lparr>features =
        [square_feature [(''PLOT_CODE'', Str ''LP001'')],
         \<lparr>geometry = None, properties = Some [(''PLOT_CODE'', Str ''LP002'')]\<rparr>,
         \<lparr>geometry = Some \<lparr>gtype = ''Polygon'', coordinates = short_ring\<rparr>,
          properties = Some [(''PLOT_CODE'', Str ''LP003'')]\<rparr>,
         square_feature [(''PLOT_CODE'', Str ''LP004'')]],
      projection = None, bounds = None, fileCount = 3, hasProjection = False\<rparr>"

section \<open>Properties of geometry validation\<close>

lemma js_lt_asym: "js_lt a b \<Longrightarrow> \<not> js_lt b a"
  by (cases a; cases b) auto

text \<open>
  When the geometry is a polygon and the four library calls return, the four remaining
  rules are all evaluated, in this order.
\<close>

lemma validateGeometry_rules:
  assumes "gtype g = ''Polygon''" "turf_polygon T (coordinates g) = Inr p"
    "turf_booleanValid T p = Inr v" "turf_kinks T p = Inr ks" "turf_area T p = Inr a"
  shows "validateGeometry T (Some g) =
     \<lparr>isValid = (v \<and> ks = [] \<and> \<not> js_lt a (Fin 1) \<and> \<not> js_gt a (Fin 10000000)),
      errors = (if v then [] else [''Invalid polygon geometry'']) @
               (if ks = [] then [] else [''Polygon has self-intersections'']) @
               (if js_lt a (Fin 1) then [''Area too small''] else []) @
               (if js_gt a (Fin 10000000) then [''Area too large''] else [])\<rparr>"
  using assms by (simp add: validateGeometry_def Let_def)

lemma validateGeometry_not_polygon:
  "gtype g \<noteq> ''Polygon'' \<Longrightarrow>
   validateGeometry T (Some g) = \<lparr>isValid = False, errors = [''Geometry must be a Polygon'']\<rparr>"
  by (simp add: validateGeometry_def)

lemma validateGeometry_polygon_throws:
  "gtype g = ''Polygon'' \<Longrightarrow> turf_polygon T (coordinates g) = Inl e \<Longrightarrow>
   validateGeometry T (Some g) = \<lparr>isValid = False, errors = [''Invalid geometry format'']\<rparr>"
  by (simp add: validateGeometry_def caught_def)

lemma stub_polygon_square:
  "stub_polygon square =
     Inr \<lparr>geometry = Some \<lparr>gtype = ''Polygon'', coordinates = square\<rparr>, properties = Some []\<rparr>"
  by (simp add: stub_polygon_def square_def)

lemma stub_polygon_short_ring:
  "stub_polygon short_ring =
     Inl (Error ''Each LinearRing of a Polygon must have 4 or more Positions.'')"
  by (simp add: stub_polygon_def short_ring_def)

section \<open>Properties of the conversion loop\<close>

lemma plot_code_plotData: "plot_code (plotData f a c) = c"
  by (simp add: plotData_def Let_def)

lemma processFeature_Some:
  "processFeature T w f = (Some p, w') \<Longrightarrow> accepted T f \<and> built_from T f p"
  by (auto simp: processFeature_def accepted_def built_from_def plot_code_plotData
           split: sum.splits prod.splits if_splits)

lemma processFeature_None:
  "processFeature T w f = (None, w') \<Longrightarrow> \<not> accepted T f"
  by (auto simp: processFeature_def accepted_def split: sum.splits prod.splits if_splits)

lemma price_usd_plotData:
  "price_usd (plotData f a c) =
     (if truthy (read_prop (properties_of f) ''PRICE_USD'')
      then read_prop (properties_of f) ''PRICE_USD''
      else if truthy (read_prop (properties_of f) ''price'')
      then read_prop (properties_of f) ''price''
      else read_prop (properties_of f) ''VALUE'')"
  by (simp add: plotData_def js_or_def Let_def)

lemma processFeature_plotData:
  "processFeature T w f = (Some p, w') \<Longrightarrow> \<exists>a. p = plotData f a (plot_code p)"
  using processFeature_Some [of T w f p w']
  by (auto simp: built_from_def split: sum.splits)

lemma processFeature_area:
  "processFeature T w f = (Some p, w1) \<Longrightarrow> turf_area T f = Inr (area_sqm p)"
  unfolding processFeature_def
  by (cases "turf_area T f"; cases "plot_code_of w (properties_of f)")
     (auto simp: plotData_def Let_def split: if_splits)

text \<open>
  The loop appends, to the records it starts with, one record per accepted feature, in
  the order of the features. The world and the records so far change from one iteration
  to the next, so both are generalised.
\<close>

lemma convert_loop_all2:
  "\<exists>ps. fst (convert_loop T w fs acc) = acc @ ps \<and>
        list_all2 (\<lambda>p f. built_from T f p) ps (filter (accepted T) fs)"
proof (induction fs arbitrary: w acc)
  case Nil
  then show ?case by simp
next
  case (Cons f fs)
  obtain r w' where step: "processFeature T w f = (r, w')"
    by (cases "processFeature T w f") auto
  show ?case
  proof (cases r)
    case None
    with step have "\<not> accepted T f" by (simp add: processFeature_None)
    with Cons.IH [of w' acc] step None show ?thesis by simp
  next
    case (Some p)
    with step have a: "accepted T f" and b: "built_from T f p"
      using processFeature_Some by blast+
    from Cons.IH [of w' "acc @ [p]"] obtain ps where
      ps: "fst (convert_loop T w' fs (acc @ [p])) = (acc @ [p]) @ ps"
          "list_all2 (\<lambda>p f. built_from T f p) ps (filter (accepted T) fs)"
      by blast
    have "fst (convert_loop T w (f # fs) acc) = acc @ (p # ps)"
      using step Some ps(1) by simp
    moreover have "list_all2 (\<lambda>p f. built_from T f p) (p # ps) (filter (accepted T) (f # fs))"
      using a b ps(2) by simp
    ultimately show ?thesis by blast
  qed
qed

lemma convert_all2:
  "list_all2 (\<lambda>p f. built_from T f p) (fst (convertToPlotData T w d))
     (filter (accepted T) (features d))"
  using convert_loop_all2 [of T w "features d" "[]"] by (auto simp: convertToPlotData_def)

lemma list_all2_right_has_left:
  "list_all2 P xs ys \<Longrightarrow> y \<in> set ys \<Longrightarrow> \<exists>x\<in>set xs. P x y"
  by (induction rule: list_all2_induct) auto

lemma list_all2_left_has_right:
  "list_all2 P xs ys \<Longrightarrow> x \<in> set xs \<Longrightarrow> \<exists>y\<in>set ys. P x y"
  by (induction rule: list_all2_induct) auto

section \<open>Evaluation on the concrete collaborators\<close>

lemma digits_small: "n < 10 \<Longrightarrow> digits n = [digit_char n]"
  by (simp add: digits.simps)

lemma digits_large: "10 \<le> n \<Longrightarrow> digits n = digits (n div 10) @ [digit_char (n mod 10)]"
  by (subst digits.simps) simp

lemma show_int_clock: "show_int 1700000000000 = ''1700000000000''"
  by (simp add: show_int_def digits_small digits_large digit_char_def)

lemma synthesize_world0:
  "synthesize world0 =
     (''PLOT_1700000000000_4fzyo82mv'', world0\<lparr>clock_reads := 1, random_draws := 1\<rparr>)"
  by (simp add: synthesize_def world0_def show_int_clock substr_def)

lemma validateGeometry_square:
  "validateGeometry (stub_turf True [] (Fin 500))
     (Some \<lparr>gtype = ''Polygon'', coordinates = square\<rparr>) = \<lparr>isValid = True, errors = []\<rparr>"
  using validateGeometry_rules [where T = "stub_turf True [] (Fin 500)"
          and g = "\<lparr>gtype = ''Polygon'', coordinates = square\<rparr>"
          and p = "\<lparr>geometry = Some \<lparr>gtype = ''Polygon'', coordinates = square\<rparr>, properties = Some []\<rparr>"
          and v = True and ks = "[]" and a = "Fin 500"]
  by (simp add: stub_turf_def stub_polygon_square js_gt_def)

lemma square_feature_sel:
  "geometry (square_feature ps) = Some \<lparr>gtype = ''Polygon'', coordinates = square\<rparr>"
  "properties_of (square_feature ps) = ps"
  "turf_area (stub_turf v ks a) (square_feature ps) = Inr a"
  by (simp_all add: square_feature_def properties_of_def stub_turf_def)

lemma processFeature_square:
  "processFeature (stub_turf True [] (Fin 500)) w (square_feature ps) =
     (Some (plotData (square_feature ps) (Fin 500) (fst (plot_code_of w ps))),
      snd (plot_code_of w ps))"
  by (simp add: processFeature_def square_feature_sel validateGeometry_square split: prod.splits)

lemma stub_polygon_small_square:
  "stub_polygon small_square =
     Inr \<lparr>geometry = Some \<lparr>gtype = ''Polygon'', coordinates = small_square\<rparr>,
          properties = Some []\<rparr>"
  by (simp add: stub_polygon_def small_square_def)

lemma validateGeometry_small_square:
  "validateGeometry (stub_turf True [] (Fin 12392))
     (Some \<lparr>gtype = ''Polygon'', coordinates = small_square\<rparr>) =
     \<lparr>isValid = True, errors = []\<rparr>"
  using validateGeometry_rules [where T = "stub_turf True [] (Fin 12392)"
          and g = "\<lparr>gtype = ''Polygon'', coordinates = small_square\<rparr>"
          and p = "\<lparr>geometry = Some \<lparr>gtype = ''Polygon'', coordinates = small_square\<rparr>,
                    properties = Some []\<rparr>"
          and v = True and ks = "[]" and a = "Fin 12392"]
  by (simp add: stub_turf_def stub_polygon_small_square js_gt_def)

lemma plot_feature_sel:
  "geometry (plot_feature ps) = Some \<lparr>gtype = ''Polygon'', coordinates = small_square\<rparr>"
  "properties_of (plot_feature ps) = ps"
  "turf_area (stub_turf v ks a) (plot_feature ps) = Inr a"
  by (simp_all add: plot_feature_def properties_of_def stub_turf_def)

lemma processFeature_plot_feature:
  "processFeature (stub_turf True [] (Fin 12392)) w (plot_feature ps) =
     (Some (plotData (plot_feature ps) (Fin 12392) (fst (plot_code_of w ps))),
      snd (plot_code_of w ps))"
  by (simp add: processFeature_def plot_feature_sel validateGeometry_small_square
           split: prod.splits)

text \<open>The record a feature yields is the object literal with the plot code of its attributes.\<close>

lemma processFeature_record:
  assumes "processFeature T w f = (Some p, w')"
  shows "\<exists>a. p = plotData f a (fst (plot_code_of w (properties_of f)))"
proof (cases "turf_area T f")
  case (Inl e)
  with assms show ?thesis by (simp add: processFeature_def)
next
  case (Inr a)
  obtain c w1 where c: "plot_code_of w (properties_of f) = (c, w1)"
    by (cases "plot_code_of w (properties_of f)") auto
  with assms Inr have "p = plotData f a c"
    by (simp add: processFeature_def split: if_splits)
  with c show ?thesis by auto
qed

lemma plot_code_of_eq:
  "plot_code_of w ps =
     (if truthy (read_prop ps ''PLOT_CODE'') then (read_prop ps ''PLOT_CODE'', w)
      else if truthy (read_prop ps ''plot_code'') then (read_prop ps ''plot_code'', w)
      else if truthy (read_prop ps ''ID'') then (read_prop ps ''ID'', w)
      else (Str (''PLOT_'' @ show_int (date_now w (clock_reads w)) @ ''_'' @
                 take 9 (drop 2 (random36 w (random_draws w)))),
            w\<lparr>clock_reads := Suc (clock_reads w), random_draws := Suc (random_draws w)\<rparr>))"
  by (simp add: plot_code_of_def js_or_def synthesize_def substr_def Let_def)

lemma plot_code_of_truthy: "truthy (fst (plot_code_of w ps))"
  by (simp add: plot_code_of_eq)

lemma mapped_fields_plotData:
  "land_use (plotData f a c) =
     (if truthy (read_prop (properties_of f) ''LAND_USE'') then read_prop (properties_of f) ''LAND_USE''
      else if truthy (read_prop (properties_of f) ''land_use'') then read_prop (properties_of f) ''land_use''
      else if truthy (read_prop (properties_of f) ''USE'') then read_prop (properties_of f) ''USE''
      else read_prop (properties_of f) ''TYPE'')"
  "owner_name (plotData f a c) =
     (if truthy (read_prop (properties_of f) ''OWNER'') then read_prop (properties_of f) ''OWNER''
      else if truthy (read_prop (properties_of f) ''owner'') then read_prop (properties_of f) ''owner''
      else read_prop (properties_of f) ''OWNER_NAME'')"
  "plot_notes (plotData f a c) =
     (if truthy (read_prop (properties_of f) ''NOTES'') then read_prop (properties_of f) ''NOTES''
      else if truthy (read_prop (properties_of f) ''notes'') then read_prop (properties_of f) ''notes''
      else read_prop (properties_of f) ''REMARKS'')"
  "attributes (plotData f a c) = properties_of f"
  by (simp_all add: plotData_def js_or_def Let_def)

section \<open>Acceptance of valid polygons\<close>

text \<open>
  C1: a feature whose geometry has type \<open>Polygon\<close>, for which the polygon is built and
  the validity check returns true, which has no intersection point, and whose computed
  area lies strictly between 1 and 10,000,000, validates with \<open>isValid = true\<close> and no
  reason; and, the area of the feature itself being computed, the batch returned by
  \<open>convertToPlotData\<close> holds the record built from that feature.
\<close>

theorem valid_polygon_accepted:
  assumes "feature \<in> set (features d)" "geometry feature = Some g" "gtype g = ''Polygon''"
    "turf_polygon T (coordinates g) = Inr p" "turf_booleanValid T p = Inr True"
    "turf_kinks T p = Inr []" "turf_area T p = Inr a"
    "js_lt (Fin 1) a" "js_lt a (Fin 10000000)" "turf_area T feature = Inr a'"
  shows "validateGeometry T (geometry feature) = \<lparr>isValid = True, errors = []\<rparr> \<and>
         (\<exists>pd \<in> set (fst (convertToPlotData T w d)). pd = plotData feature a' (plot_code pd))"
proof -
  have v: "validateGeometry T (geometry feature) = \<lparr>isValid = True, errors = []\<rparr>"
    using assms validateGeometry_rules [of g T p True "[]" a]
    by (simp add: js_gt_def js_lt_asym)
  then have "accepted T feature"
    using assms(10) by (simp add: accepted_def)
  then have "feature \<in> set (filter (accepted T) (features d))"
    using assms(1) by simp
  then obtain pd where "pd \<in> set (fst (convertToPlotData T w d))" "built_from T feature pd"
    using list_all2_right_has_left [OF convert_all2] by blast
  then show ?thesis
    using v assms(10) by (auto simp: built_from_def)
qed

theorem valid_polygon_accepted_witness:
  "validateGeometry (stub_turf True [] (Fin 500))
     (geometry (square_feature [(''PLOT_CODE'', Str ''LP001'')])) =
     \<lparr>isValid = True, errors = []\<rparr> \<and>
   (\<exists>pd \<in> set (fst (convertToPlotData (stub_turf True [] (Fin 500)) world0
        \<lparr>features = [square_feature [(''PLOT_CODE'', Str ''LP001'')]], projection = None,
         bounds = None, fileCount = 2, hasProjection = False\<rparr>)).
      pd = plotData (square_feature [(''PLOT_CODE'', Str ''LP001'')]) (Fin 500) (plot_code pd))"
  by (rule valid_polygon_accepted [where g = "\<lparr>gtype = ''Polygon'', coordinates = square\<rparr>"
        and p = "\<lparr>geometry = Some \<lparr>gtype = ''Polygon'', coordinates = square\<rparr>, properties = Some []\<rparr>"
        and a = "Fin 500"])
     (simp_all add: stub_turf_def square_feature_def stub_polygon_square)

section \<open>The area reasons\<close>

text \<open>
  C2, as stated: for every polygon geometry the reason \<open>Area too small\<close> is reported
  exactly when the computed area is below 1. A polygon whose ring has three positions
  has the computed area 0, but building the polygon throws before the area rule is
  reached, and the only reason reported is \<open>Invalid geometry format\<close>.
\<close>

theorem area_too_small_not_reported:
  "gtype \<lparr>gtype = ''Polygon'', coordinates = short_ring\<rparr> = ''Polygon'' \<and>
   turf_area (stub_turf True [] (Fin 0))
     \<lparr>geometry = Some \<lparr>gtype = ''Polygon'', coordinates = short_ring\<rparr>, properties = None\<rparr> =
     Inr (Fin 0) \<and>
   js_lt (Fin 0) (Fin 1) \<and>
   validateGeometry (stub_turf True [] (Fin 0))
     (Some \<lparr>gtype = ''Polygon'', coordinates = short_ring\<rparr>) =
     \<lparr>isValid = False, errors = [''Invalid geometry format'']\<rparr>"
  by (simp add: validateGeometry_polygon_throws [where e = "Error ''Each LinearRing of a Polygon must have 4 or more Positions.''"]
        stub_turf_def stub_polygon_short_ring)

lemma validateGeometry_booleanValid_throws:
  "gtype g = ''Polygon'' \<Longrightarrow> turf_polygon T (coordinates g) = Inr p \<Longrightarrow>
   turf_booleanValid T p = Inl e \<Longrightarrow>
   validateGeometry T (Some g) = \<lparr>isValid = False, errors = [''Invalid geometry format'']\<rparr>"
  by (simp add: validateGeometry_def caught_def)

lemma validateGeometry_kinks_throws:
  "gtype g = ''Polygon'' \<Longrightarrow> turf_polygon T (coordinates g) = Inr p \<Longrightarrow>
   turf_booleanValid T p = Inr v \<Longrightarrow> turf_kinks T p = Inl e \<Longrightarrow>
   validateGeometry T (Some g) =
     \<lparr>isValid = False,
      errors = (if v then [] else [''Invalid polygon geometry'']) @ [''Invalid geometry format'']\<rparr>"
  by (simp add: validateGeometry_def caught_def)

lemma validateGeometry_area_throws:
  "gtype g = ''Polygon'' \<Longrightarrow> turf_polygon T (coordinates g) = Inr p \<Longrightarrow>
   turf_booleanValid T p = Inr v \<Longrightarrow> turf_kinks T p = Inr ks \<Longrightarrow> turf_area T p = Inl e \<Longrightarrow>
   validateGeometry T (Some g) =
     \<lparr>isValid = False,
      errors = (if v then [] else [''Invalid polygon geometry'']) @
               (if ks = [] then [] else [''Polygon has self-intersections'']) @
               [''Invalid geometry format'']\<rparr>"
  by (simp add: validateGeometry_def caught_def)

lemma area_reasons_membership:
  "(''Area too small'' \<in> set (errors (validateGeometry T geom)) \<longleftrightarrow>
     (\<exists>g p v ks a. geom = Some g \<and> gtype g = ''Polygon'' \<and>
        turf_polygon T (coordinates g) = Inr p \<and> turf_booleanValid T p = Inr v \<and>
        turf_kinks T p = Inr ks \<and> turf_area T p = Inr a \<and> js_lt a (Fin 1))) \<and>
   (''Area too large'' \<in> set (errors (validateGeometry T geom)) \<longleftrightarrow>
     (\<exists>g p v ks a. geom = Some g \<and> gtype g = ''Polygon'' \<and>
        turf_polygon T (coordinates g) = Inr p \<and> turf_booleanValid T p = Inr v \<and>
        turf_kinks T p = Inr ks \<and> turf_area T p = Inr a \<and> js_gt a (Fin 10000000)))"
  by (auto simp: validateGeometry_def caught_def Let_def
           split: option.splits sum.splits if_splits)

text \<open>
  C2, amended: \<open>Area too small\<close> is reported exactly when the geometry has type
  \<open>Polygon\<close>, the polygon is built, the validity check and the search for intersection
  points return, and the area computed for the polygon is below 1; \<open>Area too large\<close>
  exactly when, in the same way, that area is above 10,000,000. Whether the polygon is
  valid or has intersection points plays no part. When a library call throws, the
  geometry is not valid and the reasons reported are those pushed before the call,
  followed by \<open>Invalid geometry format\<close>: none when building the polygon or the validity
  check throws, the validity reason when the search for intersection points throws, the
  validity and self-intersection reasons when the area computation throws.
\<close>

theorem area_reasons_iff:
  "(''Area too small'' \<in> set (errors (validateGeometry T geom)) \<longleftrightarrow>
     (\<exists>g p v ks a. geom = Some g \<and> gtype g = ''Polygon'' \<and>
        turf_polygon T (coordinates g) = Inr p \<and> turf_booleanValid T p = Inr v \<and>
        turf_kinks T p = Inr ks \<and> turf_area T p = Inr a \<and> js_lt a (Fin 1))) \<and>
   (''Area too large'' \<in> set (errors (validateGeometry T geom)) \<longleftrightarrow>
     (\<exists>g p v ks a. geom = Some g \<and> gtype g = ''Polygon'' \<and>
        turf_polygon T (coordinates g) = Inr p \<and> turf_booleanValid T p = Inr v \<and>
        turf_kinks T p = Inr ks \<and> turf_area T p = Inr a \<and> js_gt a (Fin 10000000))) \<and>
   (gtype h = ''Polygon'' \<and> turf_polygon T (coordinates h) = Inl e \<longrightarrow>
      validateGeometry T (Some h) =
        \<lparr>isValid = False, errors = [''Invalid geometry format'']\<rparr>) \<and>
   (gtype h = ''Polygon'' \<and> turf_polygon T (coordinates h) = Inr q \<and>
    turf_booleanValid T q = Inl e \<longrightarrow>
      validateGeometry T (Some h) =
        \<lparr>isValid = False, errors = [''Invalid geometry format'']\<rparr>) \<and>
   (gtype h = ''Polygon'' \<and> turf_polygon T (coordinates h) = Inr q \<and>
    turf_booleanValid T q = Inr u \<and> turf_kinks T q = Inl e \<longrightarrow>
      validateGeometry T (Some h) =
        \<lparr>isValid = False,
         errors = (if u then [] else [''Invalid polygon geometry'']) @
                  [''Invalid geometry format'']\<rparr>) \<and>
   (gtype h = ''Polygon'' \<and> turf_polygon T (coordinates h) = Inr q \<and>
    turf_booleanValid T q = Inr u \<and> turf_kinks T q = Inr js \<and> turf_area T q = Inl e \<longrightarrow>
      validateGeometry T (Some h) =
        \<lparr>isValid = False,
         errors = (if u then [] else [''Invalid polygon geometry'']) @
                  (if js = [] then [] else [''Polygon has self-intersections'']) @
                  [''Invalid geometry format'']\<rparr>)"
proof (intro conjI)
  show "''Area too small'' \<in> set (errors (validateGeometry T geom)) \<longleftrightarrow>
     (\<exists>g p v ks a. geom = Some g \<and> gtype g = ''Polygon'' \<and>
        turf_polygon T (coordinates g) = Inr p \<and> turf_booleanValid T p = Inr v \<and>
        turf_kinks T p = Inr ks \<and> turf_area T p = Inr a \<and> js_lt a (Fin 1))"
    by (rule area_reasons_membership [THEN conjunct1])
  show "''Area too large'' \<in> set (errors (validateGeometry T geom)) \<longleftrightarrow>
     (\<exists>g p v ks a. geom = Some g \<and> gtype g = ''Polygon'' \<and>
        turf_polygon T (coordinates g) = Inr p \<and> turf_booleanValid T p = Inr v \<and>
        turf_kinks T p = Inr ks \<and> turf_area T p = Inr a \<and> js_gt a (Fin 10000000))"
    by (rule area_reasons_membership [THEN conjunct2])
  show "gtype h = ''Polygon'' \<and> turf_polygon T (coordinates h) = Inl e \<longrightarrow>
      validateGeometry T (Some h) =
        \<lparr>isValid = False, errors = [''Invalid geometry format'']\<rparr>"
    using validateGeometry_polygon_throws [of h T e] by blast
  show "gtype h = ''Polygon'' \<and> turf_polygon T (coordinates h) = Inr q \<and>
    turf_booleanValid T q = Inl e \<longrightarrow>
      validateGeometry T (Some h) =
        \<lparr>isValid = False, errors = [''Invalid geometry format'']\<rparr>"
    using validateGeometry_booleanValid_throws [of h T q e] by blast
  show "gtype h = ''Polygon'' \<and> turf_polygon T (coordinates h) = Inr q \<and>
    turf_booleanValid T q = Inr u \<and> turf_kinks T q = Inl e \<longrightarrow>
      validateGeometry T (Some h) =
        \<lparr>isValid = False,
         errors = (if u then [] else [''Invalid polygon geometry'']) @
                  [''Invalid geometry format'']\<rparr>"
    using validateGeometry_kinks_throws [of h T q u e] by blast
  show "gtype h = ''Polygon'' \<and> turf_polygon T (coordinates h) = Inr q \<and>
    turf_booleanValid T q = Inr u \<and> turf_kinks T q = Inr js \<and> turf_area T q = Inl e \<longrightarrow>
      validateGeometry T (Some h) =
        \<lparr>isValid = False,
         errors = (if u then [] else [''Invalid polygon geometry'']) @
                  (if js = [] then [] else [''Polygon has self-intersections'']) @
                  [''Invalid geometry format'']\<rparr>"
    using validateGeometry_area_throws [of h T q u js e] by blast
qed

theorem area_reasons_iff_witness:
  "''Area too small'' \<in> set (errors (validateGeometry (stub_turf False [point_feature] (Fin (1/2)))
      (Some \<lparr>gtype = ''Polygon'', coordinates = square\<rparr>))) \<and>
   ''Area too large'' \<notin> set (errors (validateGeometry (stub_turf False [point_feature] (Fin (1/2)))
      (Some \<lparr>gtype = ''Polygon'', coordinates = square\<rparr>))) \<and>
   validateGeometry (stub_turf False [point_feature] (Fin (1/2)))
      (Some \<lparr>gtype = ''Polygon'', coordinates = short_ring\<rparr>) =
     \<lparr>isValid = False, errors = [''Invalid geometry format'']\<rparr> \<and>
   validateGeometry
      ((stub_turf False [point_feature] (Fin (1/2)))\<lparr>turf_booleanValid := (\<lambda>p. Inl Thrown)\<rparr>)
      (Some \<lparr>gtype = ''Polygon'', coordinates = square\<rparr>) =
     \<lparr>isValid = False, errors = [''Invalid geometry format'']\<rparr> \<and>
   validateGeometry
      ((stub_turf False [point_feature] (Fin (1/2)))\<lparr>turf_kinks := (\<lambda>p. Inl Thrown)\<rparr>)
      (Some \<lparr>gtype = ''Polygon'', coordinates = square\<rparr>) =
     \<lparr>isValid = False, errors = [''Invalid polygon geometry'', ''Invalid geometry format'']\<rparr> \<and>
   validateGeometry
      ((stub_turf False [point_feature] (Fin (1/2)))\<lparr>turf_area := (\<lambda>p. Inl Thrown)\<rparr>)
      (Some \<lparr>gtype = ''Polygon'', coordinates = square\<rparr>) =
     \<lparr>isValid = False,
      errors = [''Invalid polygon geometry'', ''Polygon has self-intersections'',
                ''Invalid geometry format'']\<rparr>"
proof -
  let ?T = "stub_turf False [point_feature] (Fin (1/2))"
  let ?g = "\<lparr>gtype = ''Polygon'', coordinates = square\<rparr>"
  let ?s = "\<lparr>gtype = ''Polygon'', coordinates = short_ring\<rparr>"
  let ?p = "\<lparr>geometry = Some ?g, properties = Some []\<rparr>"
  have ex: "Some ?g = Some ?g \<and> gtype ?g = ''Polygon'' \<and>
        turf_polygon ?T (coordinates ?g) = Inr ?p \<and> turf_booleanValid ?T ?p = Inr False \<and>
        turf_kinks ?T ?p = Inr [point_feature] \<and> turf_area ?T ?p = Inr (Fin (1/2)) \<and>
        js_lt (Fin (1/2)) (Fin 1)"
    by (simp add: stub_turf_def stub_polygon_square)
  have small: "''Area too small'' \<in> set (errors (validateGeometry ?T (Some ?g)))"
    using ex area_reasons_iff [where T = ?T and geom = "Some ?g", THEN conjunct1] by blast
  have "\<not> (\<exists>g p v ks a. Some ?g = Some g \<and> gtype g = ''Polygon'' \<and>
        turf_polygon ?T (coordinates g) = Inr p \<and> turf_booleanValid ?T p = Inr v \<and>
        turf_kinks ?T p = Inr ks \<and> turf_area ?T p = Inr a \<and> js_gt a (Fin 10000000))"
    by (auto simp: stub_turf_def stub_polygon_square js_gt_def)
  then have large: "''Area too large'' \<notin> set (errors (validateGeometry ?T (Some ?g)))"
    using area_reasons_iff [where T = ?T and geom = "Some ?g", THEN conjunct2, THEN conjunct1]
    by blast
  have t1: "validateGeometry ?T (Some ?s) = \<lparr>isValid = False, errors = [''Invalid geometry format'']\<rparr>"
    by (rule area_reasons_iff [where T = ?T and h = ?s
            and e = "Error ''Each LinearRing of a Polygon must have 4 or more Positions.''",
            THEN conjunct2, THEN conjunct2, THEN conjunct1, THEN mp])
       (simp add: stub_turf_def stub_polygon_short_ring)
  have t2: "validateGeometry (?T\<lparr>turf_booleanValid := (\<lambda>p. Inl Thrown)\<rparr>) (Some ?g) =
      \<lparr>isValid = False, errors = [''Invalid geometry format'']\<rparr>"
    by (rule area_reasons_iff [where T = "?T\<lparr>turf_booleanValid := (\<lambda>p. Inl Thrown)\<rparr>"
            and h = ?g and q = ?p and e = Thrown,
            THEN conjunct2, THEN conjunct2, THEN conjunct2, THEN conjunct1, THEN mp])
       (simp add: stub_turf_def stub_polygon_square)
  have t3: "validateGeometry (?T\<lparr>turf_kinks := (\<lambda>p. Inl Thrown)\<rparr>) (Some ?g) =
      \<lparr>isValid = False,
       errors = (if False then [] else [''Invalid polygon geometry'']) @
                [''Invalid geometry format'']\<rparr>"
    by (rule area_reasons_iff [where T = "?T\<lparr>turf_kinks := (\<lambda>p. Inl Thrown)\<rparr>"
            and h = ?g and q = ?p and u = False and e = Thrown,
            THEN conjunct2, THEN conjunct2, THEN conjunct2, THEN conjunct2, THEN conjunct1, THEN mp])
       (simp add: stub_turf_def stub_polygon_square)
  have t4: "validateGeometry (?T\<lparr>turf_area := (\<lambda>p. Inl Thrown)\<rparr>) (Some ?g) =
      \<lparr>isValid = False,
       errors = (if False then [] else [''Invalid polygon geometry'']) @
                (if [point_feature] = [] then [] else [''Polygon has self-intersections'']) @
                [''Invalid geometry format'']\<rparr>"
    by (rule area_reasons_iff [where T = "?T\<lparr>turf_area := (\<lambda>p. Inl Thrown)\<rparr>"
            and h = ?g and q = ?p and u = False and js = "[point_feature]" and e = Thrown,
            THEN conjunct2, THEN conjunct2, THEN conjunct2, THEN conjunct2, THEN conjunct2, THEN mp])
       (simp add: stub_turf_def stub_polygon_square)
  from t3 have t3': "validateGeometry (?T\<lparr>turf_kinks := (\<lambda>p. Inl Thrown)\<rparr>) (Some ?g) =
      \<lparr>isValid = False, errors = [''Invalid polygon geometry'', ''Invalid geometry format'']\<rparr>"
    by simp
  from t4 have t4': "validateGeometry (?T\<lparr>turf_area := (\<lambda>p. Inl Thrown)\<rparr>) (Some ?g) =
      \<lparr>isValid = False,
       errors = [''Invalid polygon geometry'', ''Polygon has self-intersections'',
                 ''Invalid geometry format'']\<rparr>"
    by simp
  show ?thesis
    by (intro conjI) (rule small large t1 t2 t3' t4')+
qed

section \<open>Evaluation of all rules\<close>

text \<open>
  C3, as stated: every rule is evaluated for every record and every triggered reason is
  reported. The geometry-type rule returns at once: a multi-polygon whose computed area
  is 20,000,000 gets the type reason alone, and \<open>Area too large\<close> is not reported.
\<close>

theorem type_rule_short_circuits:
  "turf_area (stub_turf True [] (Fin 20000000))
     \<lparr>geometry = Some \<lparr>gtype = ''MultiPolygon'', coordinates = A [square]\<rparr>, properties = None\<rparr> =
     Inr (Fin 20000000) \<and>
   js_gt (Fin 20000000) (Fin 10000000) \<and>
   validateGeometry (stub_turf True [] (Fin 20000000))
     (Some \<lparr>gtype = ''MultiPolygon'', coordinates = A [square]\<rparr>) =
     \<lparr>isValid = False, errors = [''Geometry must be a Polygon'']\<rparr>"
  by (simp add: validateGeometry_not_polygon stub_turf_def js_gt_def)

text \<open>
  C3, amended: for a geometry of type \<open>Polygon\<close> on which the four library calls return,
  the rules for validity, self-intersection, small area and large area are all
  evaluated, and the reasons reported are exactly those of the triggered rules, in this
  order; the geometry is valid exactly when none is triggered. In particular an invalid
  polygon with an intersection point carries both reasons.
\<close>

theorem validateGeometry_all_rules:
  assumes "gtype g = ''Polygon''" "turf_polygon T (coordinates g) = Inr p"
    "turf_booleanValid T p = Inr v" "turf_kinks T p = Inr ks" "turf_area T p = Inr a"
  shows "errors (validateGeometry T (Some g)) =
           (if v then [] else [''Invalid polygon geometry'']) @
           (if ks = [] then [] else [''Polygon has self-intersections'']) @
           (if js_lt a (Fin 1) then [''Area too small''] else []) @
           (if js_gt a (Fin 10000000) then [''Area too large''] else []) \<and>
         (isValid (validateGeometry T (Some g)) \<longleftrightarrow>
            v \<and> ks = [] \<and> \<not> js_lt a (Fin 1) \<and> \<not> js_gt a (Fin 10000000)) \<and>
         (\<not> v \<and> ks \<noteq> [] \<longrightarrow>
            ''Invalid polygon geometry'' \<in> set (errors (validateGeometry T (Some g))) \<and>
            ''Polygon has self-intersections'' \<in> set (errors (validateGeometry T (Some g))))"
  using validateGeometry_rules [OF assms] by simp

theorem validateGeometry_all_rules_witness:
  "errors (validateGeometry (stub_turf False [point_feature] (Fin 500))
      (Some \<lparr>gtype = ''Polygon'', coordinates = square\<rparr>)) =
     [''Invalid polygon geometry'', ''Polygon has self-intersections''] \<and>
   \<not> isValid (validateGeometry (stub_turf False [point_feature] (Fin 500))
      (Some \<lparr>gtype = ''Polygon'', coordinates = square\<rparr>))"
  using validateGeometry_all_rules [where T = "stub_turf False [point_feature] (Fin 500)"
          and g = "\<lparr>gtype = ''Polygon'', coordinates = square\<rparr>"
          and p = "\<lparr>geometry = Some \<lparr>gtype = ''Polygon'', coordinates = square\<rparr>, properties = Some []\<rparr>"
          and v = False and ks = "[point_feature]" and a = "Fin 500"]
  by (simp add: stub_turf_def stub_polygon_square js_gt_def)

section \<open>Field mapping\<close>

text \<open>
  C4, as stated: the mapping of attribute names is case-insensitive. The attribute
  \<open>Plot_Code\<close>, which differs from the alias \<open>PLOT_CODE\<close> in case only, is not read:
  the plot code is synthesized although the dictionary names one.
\<close>

theorem plot_code_case_sensitive:
  "fst (plot_code_of world0 [(''Plot_Code'', Str ''A1'')]) = Str ''PLOT_1700000000000_4fzyo82mv''"
  by (simp add: plot_code_of_def read_prop_def js_or_def synthesize_world0)

text \<open>
  C4, amended: the attribute names are matched exactly as written, with no case
  folding, and the known aliases of each target field are tried in a fixed order:
  \<open>PLOT_CODE\<close>, \<open>plot_code\<close>, \<open>ID\<close> for the plot code; \<open>LAND_USE\<close>, \<open>land_use\<close>,
  \<open>USE\<close>, \<open>TYPE\<close> for the land use; \<open>OWNER\<close>, \<open>owner\<close>, \<open>OWNER_NAME\<close> for the
  owner; \<open>PRICE_USD\<close>, \<open>price\<close>, \<open>VALUE\<close> for the price; \<open>NOTES\<close>, \<open>notes\<close>,
  \<open>REMARKS\<close> for the notes. The first alias whose value is truthy wins and the later
  ones are ignored even when present; a field other than the plot code none of whose
  earlier aliases is truthy has the value under its last alias. When no plot-code alias
  is truthy, the plot code is the text \<open>PLOT_\<close>, the clock reading, \<open>_\<close> and up to nine
  characters of the random draw, one reading and one draw being consumed; otherwise the
  clock and the random source are not used. In every case the plot code is truthy, so
  never empty, and the attribute dictionary is kept as it is.
\<close>

theorem plot_code_priority:
  assumes "processFeature T w f = (Some p, w')" "ps = properties_of f"
  shows
   "plot_code p =
      (if truthy (read_prop ps ''PLOT_CODE'') then read_prop ps ''PLOT_CODE''
       else if truthy (read_prop ps ''plot_code'') then read_prop ps ''plot_code''
       else if truthy (read_prop ps ''ID'') then read_prop ps ''ID''
       else Str (''PLOT_'' @ show_int (date_now w (clock_reads w)) @ ''_'' @
                 take 9 (drop 2 (random36 w (random_draws w))))) \<and>
    w' =
      (if truthy (read_prop ps ''PLOT_CODE'') \<or> truthy (read_prop ps ''plot_code'') \<or>
          truthy (read_prop ps ''ID'')
       then w
       else w\<lparr>clock_reads := Suc (clock_reads w), random_draws := Suc (random_draws w)\<rparr>) \<and>
    truthy (plot_code p) \<and>
    land_use p =
      (if truthy (read_prop ps ''LAND_USE'') then read_prop ps ''LAND_USE''
       else if truthy (read_prop ps ''land_use'') then read_prop ps ''land_use''
       else if truthy (read_prop ps ''USE'') then read_prop ps ''USE''
       else read_prop ps ''TYPE'') \<and>
    owner_name p =
      (if truthy (read_prop ps ''OWNER'') then read_prop ps ''OWNER''
       else if truthy (read_prop ps ''owner'') then read_prop ps ''owner''
       else read_prop ps ''OWNER_NAME'') \<and>
    price_usd p =
      (if truthy (read_prop ps ''PRICE_USD'') then read_prop ps ''PRICE_USD''
       else if truthy (read_prop ps ''price'') then read_prop ps ''price''
       else read_prop ps ''VALUE'') \<and>
    plot_notes p =
      (if truthy (read_prop ps ''NOTES'') then read_prop ps ''NOTES''
       else if truthy (read_prop ps ''notes'') then read_prop ps ''notes''
       else read_prop ps ''REMARKS'') \<and>
    attributes p = ps"
proof -
  from assms(1) obtain a where p: "p = plotData f a (fst (plot_code_of w ps))"
    using processFeature_record assms(2) by blast
  have w': "w' = snd (plot_code_of w ps)"
    using assms
    by (cases "turf_area T f"; cases "plot_code_of w (properties_of f)")
       (auto simp: processFeature_def split: if_splits)
  have code: "plot_code p = fst (plot_code_of w ps)"
    by (subst p) (rule plot_code_plotData)
  have c1: "plot_code p =
      (if truthy (read_prop ps ''PLOT_CODE'') then read_prop ps ''PLOT_CODE''
       else if truthy (read_prop ps ''plot_code'') then read_prop ps ''plot_code''
       else if truthy (read_prop ps ''ID'') then read_prop ps ''ID''
       else Str (''PLOT_'' @ show_int (date_now w (clock_reads w)) @ ''_'' @
                 take 9 (drop 2 (random36 w (random_draws w)))))"
    unfolding code by (simp add: plot_code_of_eq)
  have c2: "w' =
      (if truthy (read_prop ps ''PLOT_CODE'') \<or> truthy (read_prop ps ''plot_code'') \<or>
          truthy (read_prop ps ''ID'')
       then w
       else w\<lparr>clock_reads := Suc (clock_reads w), random_draws := Suc (random_draws w)\<rparr>)"
    unfolding w' by (simp add: plot_code_of_eq)
  have c3: "truthy (plot_code p)"
    unfolding code by (rule plot_code_of_truthy)
  have c4: "land_use p =
      (if truthy (read_prop ps ''LAND_USE'') then read_prop ps ''LAND_USE''
       else if truthy (read_prop ps ''land_use'') then read_prop ps ''land_use''
       else if truthy (read_prop ps ''USE'') then read_prop ps ''USE''
       else read_prop ps ''TYPE'')"
    by (subst p) (simp only: mapped_fields_plotData assms(2))
  have c5: "owner_name p =
      (if truthy (read_prop ps ''OWNER'') then read_prop ps ''OWNER''
       else if truthy (read_prop ps ''owner'') then read_prop ps ''owner''
       else read_prop ps ''OWNER_NAME'')"
    by (subst p) (simp only: mapped_fields_plotData assms(2))
  have c6: "price_usd p =
      (if truthy (read_prop ps ''PRICE_USD'') then read_prop ps ''PRICE_USD''
       else if truthy (read_prop ps ''price'') then read_prop ps ''price''
       else read_prop ps ''VALUE'')"
    by (subst p) (simp only: price_usd_plotData assms(2))
  have c7: "plot_notes p =
      (if truthy (read_prop ps ''NOTES'') then read_prop ps ''NOTES''
       else if truthy (read_prop ps ''notes'') then read_prop ps ''notes''
       else read_prop ps ''REMARKS'')"
    by (subst p) (simp only: mapped_fields_plotData assms(2))
  have c8: "attributes p = ps"
    by (subst p) (simp only: mapped_fields_plotData assms(2))
  show ?thesis
    by (intro conjI) (rule c1 c2 c3 c4 c5 c6 c7 c8)+
qed

lemma read_prop_mapped:
  "read_prop [(''ID'', Str ''7''), (''plot_code'', Str ''B2''), (''PLOT_CODE'', Str []),
              (''TYPE'', Str ''x''), (''USE'', Str ''farm''), (''OWNER_NAME'', Str ''Bob''),
              (''owner'', Str ''Ann''), (''VALUE'', Number (Fin 900)), (''REMARKS'', Str ''r'')] k =
     (if k = ''ID'' then Str ''7'' else if k = ''plot_code'' then Str ''B2''
      else if k = ''PLOT_CODE'' then Str [] else if k = ''TYPE'' then Str ''x''
      else if k = ''USE'' then Str ''farm'' else if k = ''OWNER_NAME'' then Str ''Bob''
      else if k = ''owner'' then Str ''Ann'' else if k = ''VALUE'' then Number (Fin 900)
      else if k = ''REMARKS'' then Str ''r'' else Undefined)"
  by (simp add: read_prop_def)

theorem plot_code_priority_witness:
  "plot_code (plotData
      (plot_feature [(''ID'', Str ''7''), (''plot_code'', Str ''B2''), (''PLOT_CODE'', Str []),
              (''TYPE'', Str ''x''), (''USE'', Str ''farm''), (''OWNER_NAME'', Str ''Bob''),
              (''owner'', Str ''Ann''), (''VALUE'', Number (Fin 900)), (''REMARKS'', Str ''r'')])
      (Fin 12392)
      (fst (plot_code_of world0
             [(''ID'', Str ''7''), (''plot_code'', Str ''B2''), (''PLOT_CODE'', Str []),
              (''TYPE'', Str ''x''), (''USE'', Str ''farm''), (''OWNER_NAME'', Str ''Bob''),
              (''owner'', Str ''Ann''), (''VALUE'', Number (Fin 900)), (''REMARKS'', Str ''r'')]))) =
     Str ''B2'' \<and>
   land_use (plotData
      (plot_feature [(''ID'', Str ''7''), (''plot_code'', Str ''B2''), (''PLOT_CODE'', Str []),
              (''TYPE'', Str ''x''), (''USE'', Str ''farm''), (''OWNER_NAME'', Str ''Bob''),
              (''owner'', Str ''Ann''), (''VALUE'', Number (Fin 900)), (''REMARKS'', Str ''r'')])
      (Fin 12392)
      (fst (plot_code_of world0
             [(''ID'', Str ''7''), (''plot_code'', Str ''B2''), (''PLOT_CODE'', Str []),
              (''TYPE'', Str ''x''), (''USE'', Str ''farm''), (''OWNER_NAME'', Str ''Bob''),
              (''owner'', Str ''Ann''), (''VALUE'', Number (Fin 900)), (''REMARKS'', Str ''r'')]))) =
     Str ''farm'' \<and>
   owner_name (plotData
      (plot_feature [(''ID'', Str ''7''), (''plot_code'', Str ''B2''), (''PLOT_CODE'', Str []),
              (''TYPE'', Str ''x''), (''USE'', Str ''farm''), (''OWNER_NAME'', Str ''Bob''),
              (''owner'', Str ''Ann''), (''VALUE'', Number (Fin 900)), (''REMARKS'', Str ''r'')])
      (Fin 12392)
      (fst (plot_code_of world0
             [(''ID'', Str ''7''), (''plot_code'', Str ''B2''), (''PLOT_CODE'', Str []),
              (''TYPE'', Str ''x''), (''USE'', Str ''farm''), (''OWNER_NAME'', Str ''Bob''),
              (''owner'', Str ''Ann''), (''VALUE'', Number (Fin 900)), (''REMARKS'', Str ''r'')]))) =
     Str ''Ann'' \<and>
   plot_code (plotData (plot_feature []) (Fin 12392) (fst (plot_code_of world0 []))) =
     Str ''PLOT_1700000000000_4fzyo82mv''"
proof -
  let ?ps = "[(''ID'', Str ''7''), (''plot_code'', Str ''B2''), (''PLOT_CODE'', Str []),
              (''TYPE'', Str ''x''), (''USE'', Str ''farm''), (''OWNER_NAME'', Str ''Bob''),
              (''owner'', Str ''Ann''), (''VALUE'', Number (Fin 900)), (''REMARKS'', Str ''r'')]"
  let ?T = "stub_turf True [] (Fin 12392)"
  note th = plot_code_priority [OF processFeature_plot_feature [of world0 ?ps]
               plot_feature_sel(2) [of ?ps, symmetric]]
  have a: "plot_code (plotData (plot_feature ?ps) (Fin 12392) (fst (plot_code_of world0 ?ps))) =
             Str ''B2''"
    using th [THEN conjunct1] by (simp add: read_prop_mapped)
  have b: "land_use (plotData (plot_feature ?ps) (Fin 12392) (fst (plot_code_of world0 ?ps))) =
             Str ''farm''"
    using th [THEN conjunct2, THEN conjunct2, THEN conjunct2, THEN conjunct1]
    by (simp add: read_prop_mapped)
  have c: "owner_name (plotData (plot_feature ?ps) (Fin 12392) (fst (plot_code_of world0 ?ps))) =
             Str ''Ann''"
    using th [THEN conjunct2, THEN conjunct2, THEN conjunct2, THEN conjunct2, THEN conjunct1]
    by (simp add: read_prop_mapped)
  have d: "plot_code (plotData (plot_feature []) (Fin 12392) (fst (plot_code_of world0 []))) =
             Str ''PLOT_1700000000000_4fzyo82mv''"
    using plot_code_priority [OF processFeature_plot_feature [of world0 "[]"]
               plot_feature_sel(2) [of "[]", symmetric], THEN conjunct1]
    by (simp add: read_prop_def world0_def show_int_clock)
  show ?thesis
    by (intro conjI) (rule a b c d)+
qed

section \<open>The price field\<close>

text \<open>
  C5, as stated: a price that is not a finite non-negative number is absent from the
  plot record. Two valid squares of side 0.001 degree, of about 12,400 square metres
  each, priced \<open>-5\<close> and \<open>"abc"\<close>, both enter the batch, and their records carry the
  two values unchanged.
\<close>

theorem negative_price_kept:
  "map price_usd (fst (convertToPlotData (stub_turf True [] (Fin 12392)) world0
      \<lparr>features = [plot_feature [(''PLOT_CODE'', Str ''LP001''), (''PRICE_USD'', Number (Fin (- 5)))],
                   plot_feature [(''PLOT_CODE'', Str ''LP002''), (''price'', Str ''abc'')]],
       projection = None, bounds = None, fileCount = 3, hasProjection = False\<rparr>)) =
   [Number (Fin (- 5)), Str ''abc'']"
  by (simp add: convertToPlotData_def processFeature_plot_feature plotData_def Let_def
        plot_feature_sel read_prop_def js_or_def)

text \<open>
  C5, amended: the price of a produced record is the attribute value itself, with no
  coercion and no range check: the value under \<open>PRICE_USD\<close> when it is truthy, else
  the value under \<open>price\<close> when that is truthy, else whatever is under \<open>VALUE\<close>
  (\<open>undefined\<close> when the key is missing).
\<close>

theorem price_passthrough:
  assumes "processFeature T w f = (Some p, w')"
  shows "price_usd p =
     (if truthy (read_prop (properties_of f) ''PRICE_USD'')
      then read_prop (properties_of f) ''PRICE_USD''
      else if truthy (read_prop (properties_of f) ''price'')
      then read_prop (properties_of f) ''price''
      else read_prop (properties_of f) ''VALUE'')"
proof -
  from assms obtain a where "p = plotData f a (plot_code p)"
    using processFeature_plotData by blast
  then show ?thesis
    using price_usd_plotData [of f a "plot_code p"] by simp
qed

theorem price_passthrough_witness:
  "price_usd (plotData (plot_feature [(''VALUE'', Number (Fin 0))]) (Fin 12392)
      (fst (plot_code_of world0 [(''VALUE'', Number (Fin 0))]))) = Number (Fin 0)"
  using price_passthrough [OF processFeature_plot_feature [of world0 "[(''VALUE'', Number (Fin 0))]"]]
  by (simp add: plot_feature_sel read_prop_def)

section \<open>The area of a plot record\<close>

lemma stub_turf_area:
  "turf_area (stub_turf v ks a) f = (case geometry f of None \<Rightarrow> Inl Thrown | Some g \<Rightarrow> Inr a)"
  by (simp add: stub_turf_def)

lemma stub_area_from_geometry: "area_from_geometry (stub_turf v ks a)"
  unfolding area_from_geometry_def
proof (intro allI impI)
  fix f f' :: Feature
  assume h: "geometry f = geometry f'"
  show "turf_area (stub_turf v ks a) f = turf_area (stub_turf v ks a) f'"
    unfolding stub_turf_area h by (rule refl)
qed

text \<open>
  C6: the area of a produced plot record is the area the geometry library computes for
  the feature, and no attribute is read for it: with a library whose area is a function
  of the geometry, two features of the same geometry get the same area, whatever their
  attribute dictionaries (an \<open>AREA_SQM\<close> attribute included) and whatever the worlds
  they are processed in.
\<close>

theorem area_sqm_from_geometry:
  assumes "area_from_geometry T" "geometry f = geometry f'"
    "processFeature T w f = (Some p, w1)" "processFeature T w' f' = (Some p', w1')"
  shows "turf_area T f = Inr (area_sqm p) \<and> area_sqm p = area_sqm p'"
proof -
  have same: "turf_area T f = turf_area T f'"
    using assms(1,2) unfolding area_from_geometry_def by blast
  have a: "turf_area T f = Inr (area_sqm p)"
    using assms(3) by (rule processFeature_area)
  have b: "turf_area T f' = Inr (area_sqm p')"
    using assms(4) by (rule processFeature_area)
  from same a b show ?thesis by (metis sum.inject(2))
qed

theorem area_sqm_from_geometry_witness:
  "area_from_geometry (stub_turf True [] (Fin 500)) \<and>
   area_sqm (plotData (square_feature [(''PLOT_CODE'', Str ''LP001''), (''AREA_SQM'', Number (Fin 1200))])
       (Fin 500)
       (fst (plot_code_of world0 [(''PLOT_CODE'', Str ''LP001''), (''AREA_SQM'', Number (Fin 1200))]))) =
   area_sqm (plotData (square_feature [(''PLOT_CODE'', Str ''LP002''), (''AREA_SQM'', Number (Fin 7))])
       (Fin 500)
       (fst (plot_code_of world0 [(''PLOT_CODE'', Str ''LP002''), (''AREA_SQM'', Number (Fin 7))])))"
proof -
  let ?ps = "[(''PLOT_CODE'', Str ''LP001''), (''AREA_SQM'', Number (Fin 1200))]"
  let ?qs = "[(''PLOT_CODE'', Str ''LP002''), (''AREA_SQM'', Number (Fin 7))]"
  have g: "geometry (square_feature ?ps) = geometry (square_feature ?qs)"
    by (simp add: square_feature_sel)
  have c: "area_from_geometry (stub_turf True [] (Fin 500))"
    by (rule stub_area_from_geometry)
  from area_sqm_from_geometry [OF c g processFeature_square [of world0 ?ps]
         processFeature_square [of world0 ?qs]]
  have "area_sqm (plotData (square_feature ?ps) (Fin 500) (fst (plot_code_of world0 ?ps))) =
        area_sqm (plotData (square_feature ?qs) (Fin 500) (fst (plot_code_of world0 ?qs)))"
    by (rule conjunct2)
  with c show ?thesis by (rule conjI)
qed

section \<open>Properties of the file check\<close>

lemma split_not_Nil: "split c s \<noteq> []"
  by (induction s) (auto split: list.splits)

lemma supportedFormats_eval:
  "map replace_dot getSupportedFormats = [''zip'', ''shp'', ''shx'', ''dbf'', ''prj'', ''cpg'']"
  by (simp add: getSupportedFormats_def replace_dot_def)

lemma extension_eval:
  "extension ''parcel.shp'' = ''shp''"
  "extension ''plots.ZIP'' = ''zip''"
  "extension ''notes.txt'' = ''txt''"
  by code_simp+

text \<open>
  C7, as stated: only ZIP-family packages of at most 50 MB pass the pre-parse check.
  The check lets a bare geometry component through: \<open>parcel.shp\<close> of 1024 bytes is
  not a compressed package and is accepted with no reason.
\<close>

theorem validateFile_shp_accepted:
  "validateFile \<lparr>fname = ''parcel.shp'', fsize = 1024\<rparr> = \<lparr>isValid = True, errors = []\<rparr>"
  by (simp add: validateFile_def maxSize_def extension_eval supportedFormats_eval)

text \<open>
  C7, amended: the check accepts a file exactly when it has at most 50 * 1024 * 1024
  bytes and the lower-cased text after the last dot of its name is one of the six
  listed extensions (the package \<open>zip\<close> and the components \<open>shp\<close>, \<open>shx\<close>,
  \<open>dbf\<close>, \<open>prj\<close>, \<open>cpg\<close>). The size reason is reported exactly for a larger
  file, the format reason exactly for any other extension, and a file is valid exactly
  when no reason is reported.
\<close>

theorem validateFile_accepts_iff:
  "(isValid (validateFile f) \<longleftrightarrow>
      fsize f \<le> 52428800 \<and>
      extension (fname f) \<in> {''zip'', ''shp'', ''shx'', ''dbf'', ''prj'', ''cpg''}) \<and>
   (''File size exceeds 50MB limit'' \<in> set (errors (validateFile f)) \<longleftrightarrow>
      52428800 < fsize f) \<and>
   (''Unsupported file format. Please upload a ZIP file containing shapefile components.''
      \<in> set (errors (validateFile f)) \<longleftrightarrow>
      extension (fname f) \<notin> {''zip'', ''shp'', ''shx'', ''dbf'', ''prj'', ''cpg''}) \<and>
   (isValid (validateFile f) \<longleftrightarrow> errors (validateFile f) = [])"
  by (auto simp add: validateFile_def maxSize_def supportedFormats_eval Let_def)

theorem validateFile_accepts_iff_witness:
  "isValid (validateFile \<lparr>fname = ''plots.ZIP'', fsize = 52428800\<rparr>) \<and>
   \<not> isValid (validateFile \<lparr>fname = ''plots.ZIP'', fsize = 52428801\<rparr>) \<and>
   \<not> isValid (validateFile \<lparr>fname = ''notes.txt'', fsize = 10\<rparr>)"
  using validateFile_accepts_iff [of "\<lparr>fname = ''plots.ZIP'', fsize = 52428800\<rparr>"]
        validateFile_accepts_iff [of "\<lparr>fname = ''plots.ZIP'', fsize = 52428801\<rparr>"]
        validateFile_accepts_iff [of "\<lparr>fname = ''notes.txt'', fsize = 10\<rparr>"]
  by (simp add: extension_eval)

section \<open>Required archive entries\<close>

lemma find_entry_None_iff:
  "find_entry ext names = None \<longleftrightarrow> \<not> (\<exists>n\<in>set names. endsWith (toLowerCase n) ext)"
  by (auto simp: find_entry_def find_None_iff)

lemma find_Some_holds: "find P xs = Some x \<Longrightarrow> P x"
  by (induction xs) (auto split: if_splits)

text \<open>An entry found for a non-empty extension has a non-empty name, so \<open>!\<close> is false for it.\<close>

lemma find_entry_Some_nonempty:
  assumes "ext \<noteq> []" "find_entry ext names = Some n"
  shows "n \<noteq> []"
proof
  assume "n = []"
  moreover have "endsWith (toLowerCase n) ext"
    using assms(2) find_Some_holds unfolding find_entry_def by fast
  ultimately have "suffix ext []"
    by (simp add: endsWith_def toLowerCase_def)
  with assms(1) show False by simp
qed

lemma js_not_find_entry:
  assumes "ext \<noteq> []"
  shows "js_not (find_entry ext names) \<longleftrightarrow>
     \<not> (\<exists>n\<in>set names. endsWith (toLowerCase n) ext)"
proof (cases "find_entry ext names")
  case None
  then show ?thesis
    using find_entry_None_iff [of ext names] by (simp add: js_not_def)
next
  case (Some n)
  then have "n \<noteq> []" using assms find_entry_Some_nonempty by blast
  then show ?thesis
    using Some find_entry_None_iff [of ext names] by (simp add: js_not_def)
qed

lemma js_not_has_entry:
  "ext \<noteq> [] \<Longrightarrow> js_not (find_entry ext names) \<longleftrightarrow> \<not> has_entry ext names"
  by (simp add: js_not_find_entry has_entry_def list_ex_iff)

lemma parse_missing:
  assumes "loadAsync D upload = Inr names"
    "\<not> has_entry ''.shp'' names \<or> \<not> has_entry ''.dbf'' names"
  shows "parseShapefileFromZip D T upload =
           Inl (Error ''Failed to parse shapefile: Shapefile must contain .shp and .dbf files'')"
proof -
  have "js_not (find_entry ''.shp'' names) \<or> js_not (find_entry ''.dbf'' names)"
    using assms(2) by (simp add: js_not_has_entry)
  then show ?thesis
    using assms(1) by (simp add: parseShapefileFromZip_def parse_failed_def Let_def)
qed

lemma parse_complete:
  assumes "loadAsync D upload = Inr names" "has_entry ''.shp'' names" "has_entry ''.dbf'' names"
    "generateMockFeaturesFromFile D upload = Inr fs" "calculateBounds T fs = Inr b"
  shows "parseShapefileFromZip D T upload =
           Inr \<lparr>features = fs,
                projection = (if has_entry ''.prj'' names then Some ''EPSG:4326'' else None),
                bounds = b, fileCount = length names,
                hasProjection = has_entry ''.prj'' names\<rparr>"
proof -
  have "\<not> js_not (find_entry ''.shp'' names)" "\<not> js_not (find_entry ''.dbf'' names)"
    using assms(2,3) by (simp_all add: js_not_has_entry)
  moreover have "js_not (find_entry ''.prj'' names) = (\<not> has_entry ''.prj'' names)"
    by (simp add: js_not_has_entry)
  ultimately show ?thesis
    using assms(1,4,5) by (simp add: parseShapefileFromZip_def Let_def)
qed

lemma has_entry_eval:
  "has_entry ''.shp'' [''plots.shp'', ''plots.shx''] = True"
  "has_entry ''.dbf'' [''plots.shp'', ''plots.shx''] = False"
  "has_entry ''.shp'' [''PLOTS.SHP'', ''plots.dbf''] = True"
  "has_entry ''.dbf'' [''PLOTS.SHP'', ''plots.dbf''] = True"
  "has_entry ''.prj'' [''PLOTS.SHP'', ''plots.dbf''] = False"
  by code_simp+

lemma calculateBounds_square:
  "calculateBounds (stub_turf v ks a) [square_feature ps] =
     Inr (Some \<lparr>gtype = ''Polygon'', coordinates = square\<rparr>)"
  by (simp add: calculateBounds_def stub_turf_def stub_polygon_square)

text \<open>
  C8: when the archive opens and no entry name ends in \<open>.shp\<close>, or none ends in
  \<open>.dbf\<close>, parsing fails with the missing-component error, whatever the decoder would
  produce: no feature is decoded and no shapefile data is returned. With both entries
  present the result does not depend on a \<open>.prj\<close> entry except for the projection
  fields: when decoding and the bounds computation return, so does the parse, with no
  projection when the entry is absent.
\<close>

theorem missing_component_fails:
  assumes "loadAsync D upload = Inr names"
  shows "(\<not> has_entry ''.shp'' names \<or> \<not> has_entry ''.dbf'' names \<longrightarrow>
            parseShapefileFromZip D T upload =
              Inl (Error ''Failed to parse shapefile: Shapefile must contain .shp and .dbf files'')) \<and>
         (has_entry ''.shp'' names \<and> has_entry ''.dbf'' names \<and>
          generateMockFeaturesFromFile D upload = Inr fs \<and> calculateBounds T fs = Inr b \<longrightarrow>
            parseShapefileFromZip D T upload =
              Inr \<lparr>features = fs,
                   projection = (if has_entry ''.prj'' names then Some ''EPSG:4326'' else None),
                   bounds = b, fileCount = length names,
                   hasProjection = has_entry ''.prj'' names\<rparr>)"
  using parse_missing [OF assms] parse_complete [OF assms] by blast

theorem missing_component_fails_witness:
  "parseShapefileFromZip (decoder_of [''plots.shp'', ''plots.shx''] [square_feature []])
     (stub_turf True [] (Fin 500)) \<lparr>fname = ''plots.zip'', fsize = 2048\<rparr> =
     Inl (Error ''Failed to parse shapefile: Shapefile must contain .shp and .dbf files'') \<and>
   parseShapefileFromZip (decoder_of [''PLOTS.SHP'', ''plots.dbf''] [square_feature []])
     (stub_turf True [] (Fin 500)) \<lparr>fname = ''plots.zip'', fsize = 2048\<rparr> =
     Inr \<lparr>features = [square_feature []], projection = None,
          bounds = Some \<lparr>gtype = ''Polygon'', coordinates = square\<rparr>,
          fileCount = 2, hasProjection = False\<rparr>"
  using missing_component_fails [where D = "decoder_of [''plots.shp'', ''plots.shx''] [square_feature []]"
          and names = "[''plots.shp'', ''plots.shx'']" and T = "stub_turf True [] (Fin 500)"
          and upload = "\<lparr>fname = ''plots.zip'', fsize = 2048\<rparr>"]
        missing_component_fails [where D = "decoder_of [''PLOTS.SHP'', ''plots.dbf''] [square_feature []]"
          and names = "[''PLOTS.SHP'', ''plots.dbf'']" and T = "stub_turf True [] (Fin 500)"
          and upload = "\<lparr>fname = ''plots.zip'', fsize = 2048\<rparr>"
          and fs = "[square_feature []]"
          and b = "Some \<lparr>gtype = ''Polygon'', coordinates = square\<rparr>"]
  by (simp add: decoder_of_def has_entry_eval calculateBounds_square)

section \<open>Order and content of the batch\<close>

lemma built_from_source:
  "built_from T f p \<Longrightarrow>
     (plot_geometry p, attributes p) = (JSON_stringify (geometry f), properties_of f)"
proof -
  assume "built_from T f p"
  then obtain a where "p = plotData f a (plot_code p)"
    by (auto simp: built_from_def split: sum.splits)
  then have "plot_geometry p = plot_geometry (plotData f a (plot_code p))"
    "attributes p = attributes (plotData f a (plot_code p))"
    by simp_all
  then show ?thesis by (simp add: plotData_def Let_def)
qed

lemma list_all2_map_eq:
  "list_all2 (\<lambda>x y. g x = h y) xs ys \<Longrightarrow> map g xs = map h ys"
  by (induction rule: list_all2_induct) auto

lemma processFeature_no_geometry:
  "processFeature (stub_turf v ks a) w \<lparr>geometry = None, properties = ps\<rparr> = (None, w)"
  by (simp add: processFeature_def stub_turf_def)

lemma processFeature_short_ring:
  "fst (processFeature (stub_turf v ks a) w
      \<lparr>geometry = Some \<lparr>gtype = ''Polygon'', coordinates = short_ring\<rparr>, properties = ps\<rparr>) = None"
proof -
  have "validateGeometry (stub_turf v ks a) (Some \<lparr>gtype = ''Polygon'', coordinates = short_ring\<rparr>) =
          \<lparr>isValid = False, errors = [''Invalid geometry format'']\<rparr>"
    by (rule validateGeometry_polygon_throws) (simp_all add: stub_turf_def stub_polygon_short_ring)
  then show ?thesis
    by (simp add: processFeature_def stub_turf_def split: prod.splits)
qed

lemma plot_code_named:
  "plot_code_of w ((''PLOT_CODE'', Str (c # cs)) # ps) = (Str (c # cs), w)"
  by (simp add: plot_code_of_def read_prop_def js_or_def)

lemma mixed_batch_codes:
  "map plot_code (fst (convertToPlotData (stub_turf True [] (Fin 500)) world0 mixed_batch)) =
     [Str ''LP001'', Str ''LP004'']"
proof -
  let ?T = "stub_turf True [] (Fin 500)"
  obtain w3 where s3: "processFeature ?T world0
      \<lparr>geometry = Some \<lparr>gtype = ''Polygon'', coordinates = short_ring\<rparr>,
       properties = Some [(''PLOT_CODE'', Str ''LP003'')]\<rparr> = (None, w3)"
    using processFeature_short_ring [of True "[]" "Fin 500" world0 "Some [(''PLOT_CODE'', Str ''LP003'')]"]
    by (metis prod.collapse)
  show ?thesis
    by (simp add: convertToPlotData_def mixed_batch_def processFeature_square
          processFeature_no_geometry s3 plot_code_named plot_code_plotData)
qed

text \<open>
  C9: the records of the batch correspond one to one, in order, to the accepted
  features of the input: the k-th record is built from the k-th feature on which the
  area call returns and whose geometry validates. A feature that throws or fails
  validation is skipped and the features after it are still processed. Read through
  the geometry text and the attributes a record carries, the batch is a subsequence of
  the input.
\<close>

theorem batch_order_preserved:
  "list_all2 (\<lambda>p f. built_from T f p) (fst (convertToPlotData T w d))
     (filter (accepted T) (features d)) \<and>
   subseq (map (\<lambda>p. (plot_geometry p, attributes p)) (fst (convertToPlotData T w d)))
     (map (\<lambda>f. (JSON_stringify (geometry f), properties_of f)) (features d))"
proof -
  have all2: "list_all2 (\<lambda>p f. built_from T f p) (fst (convertToPlotData T w d))
     (filter (accepted T) (features d))"
    by (rule convert_all2)
  then have "list_all2 (\<lambda>p f. (plot_geometry p, attributes p) =
                 (JSON_stringify (geometry f), properties_of f))
     (fst (convertToPlotData T w d)) (filter (accepted T) (features d))"
    by (rule list_all2_mono) (rule built_from_source)
  then have "map (\<lambda>p. (plot_geometry p, attributes p)) (fst (convertToPlotData T w d)) =
        map (\<lambda>f. (JSON_stringify (geometry f), properties_of f)) (filter (accepted T) (features d))"
    by (rule list_all2_map_eq)
  moreover have "subseq
        (map (\<lambda>f. (JSON_stringify (geometry f), properties_of f)) (filter (accepted T) (features d)))
        (map (\<lambda>f. (JSON_stringify (geometry f), properties_of f)) (features d))"
    by (rule subseq_map) (rule subseq_filter_left)
  ultimately show ?thesis using all2 by simp
qed

theorem batch_order_preserved_witness:
  "map plot_code (fst (convertToPlotData (stub_turf True [] (Fin 500)) world0 mixed_batch)) =
     [Str ''LP001'', Str ''LP004''] \<and>
   subseq (map (\<lambda>p. (plot_geometry p, attributes p))
            (fst (convertToPlotData (stub_turf True [] (Fin 500)) world0 mixed_batch)))
     (map (\<lambda>f. (JSON_stringify (geometry f), properties_of f)) (features mixed_batch))"
  using batch_order_preserved [of "stub_turf True [] (Fin 500)" world0 mixed_batch] mixed_batch_codes
  by simp

section \<open>Only valid geometries enter the batch\<close>

text \<open>
  C10: every record of the batch is built from an input feature whose geometry
  validates, the geometry text of the record being that of this geometry; and the batch
  has at most as many records as the input has features.
\<close>

theorem batch_only_valid:
  "(\<forall>p \<in> set (fst (convertToPlotData T w d)).
      \<exists>f \<in> set (features d).
        built_from T f p \<and> plot_geometry p = JSON_stringify (geometry f) \<and>
        isValid (validateGeometry T (geometry f))) \<and>
   length (fst (convertToPlotData T w d)) \<le> length (features d)"
proof -
  have all2: "list_all2 (\<lambda>p f. built_from T f p) (fst (convertToPlotData T w d))
     (filter (accepted T) (features d))"
    by (rule convert_all2)
  have "\<exists>f \<in> set (features d).
        built_from T f p \<and> plot_geometry p = JSON_stringify (geometry f) \<and>
        isValid (validateGeometry T (geometry f))"
    if "p \<in> set (fst (convertToPlotData T w d))" for p
  proof -
    from list_all2_left_has_right [OF all2 that] obtain f where
      f: "f \<in> set (features d)" "accepted T f" "built_from T f p"
      by auto
    from f(2) have "isValid (validateGeometry T (geometry f))"
      by (auto simp: accepted_def split: sum.splits)
    moreover from f(3) have "plot_geometry p = JSON_stringify (geometry f)"
      using built_from_source by blast
    ultimately show ?thesis using f(1,3) by blast
  qed
  moreover have "length (fst (convertToPlotData T w d)) \<le> length (features d)"
    using list_all2_lengthD [OF all2] by simp
  ultimately show ?thesis by blast
qed

theorem batch_only_valid_witness:
  "length (fst (convertToPlotData (stub_turf True [] (Fin 500)) world0 mixed_batch)) = 2 \<and>
   length (features mixed_batch) = 4 \<and>
   length (fst (convertToPlotData (stub_turf True [] (Fin 500)) world0 mixed_batch))
     \<le> length (features mixed_batch)"
proof -
  have "length (map plot_code (fst (convertToPlotData (stub_turf True [] (Fin 500)) world0 mixed_batch))) = 2"
    by (simp only: mixed_batch_codes) simp
  moreover have "length (features mixed_batch) = 4"
    by (simp add: mixed_batch_def)
  ultimately show ?thesis
    using batch_only_valid [of "stub_turf True [] (Fin 500)" world0 mixed_batch] by simp
qed

end
